theory Spec2Isabelle
  imports Main
begin

section \<open>JavaScript values read by the page script\<close>

text \<open>
  The script \<^verbatim>\<open>src/frontend/script.js\<close> receives every backend answer through
  \<^verbatim>\<open>response.json()\<close> or \<^verbatim>\<open>JSON.parse\<close>, so the values it inspects are JSON values.
  \<^verbatim>\<open>undefined\<close> (an absent property) is \<open>None\<close> of \<open>json option\<close>.

  Two restrictions of the value model, both on the input side. A number is written as an
  integer (the backend's counts and user identifiers): \<open>JNum n\<close> is the number the
  JavaScript parser makes of the integer literal \<open>n\<close>, which is \<open>n\<close> itself when
  \<open>\<bar>n\<bar> < 2^53\<close> and the nearest double otherwise. A string is a list of 8-bit
  characters, so \<^verbatim>\<open>length\<close> agrees with JavaScript on ASCII text.
\<close>

datatype json =
    JNull
  | JBool bool
  | JNum int
  | JStr string
  | JArr "json list"
  | JObj "(string \<times> json) list"

type_synonym jsval = "json option"

text \<open>
  Two conversions of the JavaScript engine are taken as parameters, because they depend on
  the double-precision arithmetic the integer model leaves out: whether the number a
  string parses to is positive (for \<^verbatim>\<open>v > 0\<close> on a string), and the text printed for an
  integer literal of size \<open>2^53\<close> or more, which is held as the nearest double and is not
  printed digit for digit.
\<close>

record host =
  str_positive :: "string \<Rightarrow> bool"
  big_number_text :: "int \<Rightarrow> string"

text \<open>
  Decimal rendering of an integer below \<open>2^53\<close> in size, as \<^verbatim>\<open>String(n)\<close> gives it: such
  a number is held exactly and printed digit for digit.
\<close>

fun string_of_nat :: "nat \<Rightarrow> string" where
  "string_of_nat n =
     (if n < 10 then [''0123456789'' ! n]
      else string_of_nat (n div 10) @ [''0123456789'' ! (n mod 10)])"

declare string_of_nat.simps [simp del]

definition string_of_int :: "int \<Rightarrow> string" where
  "string_of_int i =
     (if i < 0 then CHR ''-'' # string_of_nat (nat (- i)) else string_of_nat (nat i))"

definition number_text :: "host \<Rightarrow> int \<Rightarrow> string" where
  "number_text h n = (if \<bar>n\<bar> < 2 ^ 53 then string_of_int n else big_number_text h n)"

text \<open>The number a string of decimal digits denotes, to state that the rendering is decimal.\<close>

definition digit_value :: "char \<Rightarrow> nat" where
  "digit_value c = of_char c - 48"

definition decimal_value :: "string \<Rightarrow> nat" where
  "decimal_value cs = foldl (\<lambda>a c. 10 * a + digit_value c) 0 cs"

text \<open>\<^verbatim>\<open>Array.prototype.join\<close> on strings already converted.\<close>

fun js_join :: "string \<Rightarrow> string list \<Rightarrow> string" where
  "js_join sep [] = []"
| "js_join sep [x] = x"
| "js_join sep (x # y # ys) = x @ sep @ js_join sep (y # ys)"

text \<open>
  \<^verbatim>\<open>ToString\<close>: what a template literal \<^verbatim>\<open>`${v}`\<close> inserts; \<open>None\<close> when the conversion
  throws a type error. An array prints its elements joined by a comma, with \<^verbatim>\<open>null\<close>
  elements printed as the empty string, and throws when an element does. A parsed object
  inherits \<^verbatim>\<open>toString\<close> and prints as \<^verbatim>\<open>[object Object]\<close>, unless it has a key
  \<^verbatim>\<open>toString\<close> of its own: the value under that key is not a function, the inherited
  \<^verbatim>\<open>valueOf\<close> returns the object itself, and the conversion throws.
\<close>

fun to_string :: "host \<Rightarrow> json \<Rightarrow> string option" where
  "to_string h JNull = Some ''null''"
| "to_string h (JBool b) = Some (if b then ''true'' else ''false'')"
| "to_string h (JNum n) = Some (number_text h n)"
| "to_string h (JStr s) = Some s"
| "to_string h (JArr xs) =
     map_option (js_join '','')
       (those (map (\<lambda>x. if x = JNull then Some [] else to_string h x) xs))"
| "to_string h (JObj kvs) =
     (if ''toString'' \<in> set (map fst kvs) then None else Some ''[object Object]'')"

definition template_str :: "host \<Rightarrow> jsval \<Rightarrow> string option" where
  "template_str h v = (case v of None \<Rightarrow> Some ''undefined'' | Some j \<Rightarrow> to_string h j)"

text \<open>
  The string stored by \<^verbatim>\<open>element.textContent = v\<close>: the attribute is a nullable string, so
  \<^verbatim>\<open>undefined\<close> and \<^verbatim>\<open>null\<close> both store the empty string, and any other value is
  converted, which may throw. An element of \<^verbatim>\<open>Array.prototype.join\<close> is converted in the
  same way.
\<close>

definition text_content :: "host \<Rightarrow> jsval \<Rightarrow> string option" where
  "text_content h v =
     (case v of None \<Rightarrow> Some [] | Some JNull \<Rightarrow> Some [] | Some j \<Rightarrow> to_string h j)"

text \<open>Truthiness, as \<^verbatim>\<open>if (v)\<close>, \<^verbatim>\<open>v && w\<close> and \<^verbatim>\<open>v || w\<close> test it.\<close>

fun truthy_json :: "json \<Rightarrow> bool" where
  "truthy_json JNull = False"
| "truthy_json (JBool b) = b"
| "truthy_json (JNum n) = (n \<noteq> 0)"
| "truthy_json (JStr s) = (s \<noteq> [])"
| "truthy_json (JArr xs) = True"
| "truthy_json (JObj kvs) = True"

definition truthy :: "jsval \<Rightarrow> bool" where
  "truthy v = (case v of None \<Rightarrow> False | Some j \<Rightarrow> truthy_json j)"

text \<open>
  Reading a data property \<^verbatim>\<open>v.k\<close> of a value that is neither \<^verbatim>\<open>undefined\<close> nor
  \<^verbatim>\<open>null\<close>. The script reads only \<^verbatim>\<open>status\<close>, \<^verbatim>\<open>message\<close>, \<^verbatim>\<open>detail\<close>, \<^verbatim>\<open>users\<close>,
  \<^verbatim>\<open>length\<close>, \<^verbatim>\<open>pk\<close>, \<^verbatim>\<open>username\<close>, \<^verbatim>\<open>full_name\<close>, \<^verbatim>\<open>log\<close> and \<^verbatim>\<open>logged_in\<close>; none of
  them is inherited from a prototype except \<^verbatim>\<open>length\<close> of arrays and strings. In a parsed
  object the last of several equal keys wins. Reading a property of \<^verbatim>\<open>undefined\<close> or
  \<^verbatim>\<open>null\<close> throws; the callers make that test before they read.
\<close>

fun js_prop :: "json \<Rightarrow> string \<Rightarrow> jsval" where
  "js_prop (JObj kvs) k = map_of (rev kvs) k"
| "js_prop (JArr xs) k = (if k = ''length'' then Some (JNum (int (length xs))) else None)"
| "js_prop (JStr s) k = (if k = ''length'' then Some (JNum (int (length s))) else None)"
| "js_prop JNull k = None"
| "js_prop (JBool b) k = None"
| "js_prop (JNum n) k = None"

text \<open>
  \<^verbatim>\<open>v > 0\<close>; \<open>None\<close> when the conversion of the operand throws. The operand is
  converted to a number first: \<^verbatim>\<open>undefined\<close> gives \<^verbatim>\<open>NaN\<close>, \<^verbatim>\<open>null\<close> gives \<open>0\<close>, a
  boolean \<open>0\<close> or \<open>1\<close>. A string is parsed as a numeric literal; an array is first printed
  and then parsed; an object prints as \<^verbatim>\<open>[object Object]\<close>, which parses to \<^verbatim>\<open>NaN\<close>, or
  throws when it has a key \<^verbatim>\<open>toString\<close> of its own.
\<close>

fun gt_zero :: "host \<Rightarrow> jsval \<Rightarrow> bool option" where
  "gt_zero h None = Some False"
| "gt_zero h (Some JNull) = Some False"
| "gt_zero h (Some (JBool b)) = Some b"
| "gt_zero h (Some (JNum n)) = Some (0 < n)"
| "gt_zero h (Some (JStr s)) = Some (str_positive h s)"
| "gt_zero h (Some (JArr xs)) = map_option (str_positive h) (to_string h (JArr xs))"
| "gt_zero h (Some (JObj kvs)) =
     (if ''toString'' \<in> set (map fst kvs) then None else Some False)"

text \<open>\<^verbatim>\<open>String.prototype.includes\<close>: does \<open>sub\<close> occur in \<open>s\<close> as a contiguous run?\<close>

fun starts_with :: "string \<Rightarrow> string \<Rightarrow> bool" where
  "starts_with s [] = True"
| "starts_with [] (c # cs) = False"
| "starts_with (d # ds) (c # cs) = (d = c \<and> starts_with ds cs)"

fun str_includes :: "string \<Rightarrow> string \<Rightarrow> bool" where
  "str_includes [] sub = (sub = [])"
| "str_includes (c # cs) sub = (starts_with (c # cs) sub \<or> str_includes cs sub)"


section \<open>The page\<close>

text \<open>
  The script keeps no variables of its own between events: everything it remembers is in
  the document. \<open>page\<close> holds the part of the document the script reads or writes:
  the status line (\<^verbatim>\<open>textContent\<close> and \<^verbatim>\<open>className\<close> of \<^verbatim>\<open>#status-message\<close>), whether
  the class \<^verbatim>\<open>hidden\<close> is on \<^verbatim>\<open>#login-form\<close>, \<^verbatim>\<open>#2fa-section\<close> and
  \<^verbatim>\<open>#bot-actions-section\<close>, the markup assigned to \<^verbatim>\<open>#user-list-output\<close>, the text stored
  in the \<^verbatim>\<open>#recipient-pks\<close> field, the paragraphs appended to \<^verbatim>\<open>#log-output\<close> (class and
  text of each, oldest first), whether the event source has been closed, and the lines
  written with \<^verbatim>\<open>console.error\<close>. The markup file is not part of the source; the
  elements the script looks up are taken to exist.
\<close>

record page =
  statusText :: string
  statusClass :: string
  loginHidden :: bool
  twoFaHidden :: bool
  botActionsHidden :: bool
  userListHtml :: string
  recipientPks :: string
  logLines :: "(string \<times> string) list"
  channelClosed :: bool
  consoleErrors :: "string list"

text \<open>
  An exception that leaves a handler uncaught. The writes made before the throw stay in
  the document, so the error is paired with the page as it was at the throw.
\<close>

datatype js_error = NetworkFailure | SyntaxError | TypeError

type_synonym outcome = "js_error \<times> page + page"

definition state_of :: "outcome \<Rightarrow> page" where
  "state_of r = (case r of Inl (e, s) \<Rightarrow> s | Inr s \<Rightarrow> s)"

definition uncaught :: "outcome \<Rightarrow> js_error option" where
  "uncaught r = (case r of Inl (e, s) \<Rightarrow> Some e | Inr s \<Rightarrow> None)"

text \<open>The statements that follow a call that may throw.\<close>

definition then_do :: "outcome \<Rightarrow> (page \<Rightarrow> outcome) \<Rightarrow> outcome" where
  "then_do r f = (case r of Inl e \<Rightarrow> Inl e | Inr s \<Rightarrow> f s)"

text \<open>
  How a \<^verbatim>\<open>fetch\<close> ends: the promise rejects (no connection), or a response arrives with
  its \<^verbatim>\<open>ok\<close> flag and a body that \<^verbatim>\<open>response.json()\<close> parses (\<open>Some\<close>) or rejects
  with a syntax error (\<open>None\<close>).
\<close>

datatype fetch_outcome = Rejected | Response bool "json option"

type_synonym formdata = "(string \<times> string) list"

record request =
  url :: string
  body :: formdata

subsection \<open>\<^verbatim>\<open>updateStatus\<close> and \<^verbatim>\<open>appendLog\<close>\<close>

text \<open>
  \<^verbatim>\<open>updateStatus(message, isError)\<close> assigns \<open>message\<close> to \<^verbatim>\<open>textContent\<close> and then sets
  the class. The script calls it with a string (a literal or a template literal), where
  the assignment stores the string as it is, and with a property of the reply, where the
  assignment converts the value first and throws, before anything is written, when the
  conversion does. \<open>updateStatus\<close> is the call on a string, \<open>updateStatus_value\<close> the
  call on a value of the reply.
\<close>

definition status_class :: "bool \<Rightarrow> string" where
  "status_class isError =
     ''mt-6 text-center text-sm font-medium '' @
     (if isError then ''text-red-600'' else ''text-gray-700'')"

definition updateStatus :: "string \<Rightarrow> bool \<Rightarrow> page \<Rightarrow> page" where
  "updateStatus message isError s =
     s\<lparr>statusText := message, statusClass := status_class isError\<rparr>"

definition updateStatus_value :: "host \<Rightarrow> jsval \<Rightarrow> bool \<Rightarrow> page \<Rightarrow> outcome" where
  "updateStatus_value h message isError s =
     (case text_content h message of
        None \<Rightarrow> Inl (TypeError, s)
      | Some t \<Rightarrow> Inr (updateStatus t isError s))"

text \<open>
  The class of a log paragraph, from the keyword tests of \<^verbatim>\<open>appendLog\<close>; \<open>inc\<close> is
  \<^verbatim>\<open>logEntry.includes\<close>. When no keyword matches, no class is set.
\<close>

definition log_class :: "(string \<Rightarrow> bool) \<Rightarrow> string" where
  "log_class inc =
     (if inc ''ERROR'' \<or> inc ''Failed'' then ''log-error''
      else if inc ''WARNING'' \<or> inc ''Rate limit'' then ''log-warning''
      else if inc ''INFO'' \<or> inc ''Successfully'' then ''log-info''
      else [])"

text \<open>
  \<^verbatim>\<open>appendLog(logEntry)\<close>. A string has \<^verbatim>\<open>includes\<close> (substring test) and so has an array
  (element test); on any other value the call \<^verbatim>\<open>logEntry.includes(...)\<close> throws a type
  error. An array is converted when it is assigned to \<^verbatim>\<open>textContent\<close>, which may throw
  too. In both cases nothing has been appended yet.
\<close>

definition appendLog :: "host \<Rightarrow> json \<Rightarrow> page \<Rightarrow> outcome" where
  "appendLog h logEntry s =
     (case logEntry of
        JStr t \<Rightarrow> Inr (s\<lparr>logLines := logLines s @ [(log_class (str_includes t), t)]\<rparr>)
      | JArr xs \<Rightarrow>
          (case to_string h (JArr xs) of
             None \<Rightarrow> Inl (TypeError, s)
           | Some t \<Rightarrow>
               Inr (s\<lparr>logLines := logLines s @ [(log_class (\<lambda>k. JStr k \<in> set xs), t)]\<rparr>))
      | _ \<Rightarrow> Inl (TypeError, s))"

subsection \<open>The log channel\<close>

text \<open>
  \<^verbatim>\<open>eventSource.onmessage\<close>. The argument is the result of \<^verbatim>\<open>JSON.parse(event.data)\<close>:
  \<open>None\<close> when the text is not JSON and the parse throws.
\<close>

definition onmessage :: "host \<Rightarrow> json option \<Rightarrow> page \<Rightarrow> outcome" where
  "onmessage h parsed s =
     (case parsed of
        None \<Rightarrow> Inl (SyntaxError, s)
      | Some data \<Rightarrow>
          (if truthy_json data then
             (case js_prop data ''log'' of
                None \<Rightarrow> Inr s
              | Some l \<Rightarrow> if truthy_json l then appendLog h l s else Inr s)
           else Inr s))"

definition stream_failed_line :: string where
  "stream_failed_line = ''ERROR: Log streaming failed. Refresh the page or check server logs.''"

definition onerror :: "host \<Rightarrow> page \<Rightarrow> outcome" where
  "onerror h s =
     then_do
       (appendLog h (JStr stream_failed_line)
          (s\<lparr>consoleErrors := consoleErrors s @ [''EventSource failed:'']\<rparr>))
       (\<lambda>s'. Inr (s'\<lparr>channelClosed := True\<rparr>))"

subsection \<open>The status probe\<close>

text \<open>
  \<^verbatim>\<open>fetch('/status').then(...).then(...).catch(...)\<close>: a rejected fetch, an unparsable body
  and a throw inside the second \<^verbatim>\<open>then\<close> (reading \<^verbatim>\<open>logged_in\<close> of \<^verbatim>\<open>null\<close>) all end in
  the \<^verbatim>\<open>catch\<close>.
\<close>

definition status_caught :: "page \<Rightarrow> page" where
  "status_caught s =
     updateStatus ''Could not connect to backend. Ensure the server is running.''
       True (s\<lparr>consoleErrors := consoleErrors s @ [''Error checking status:'']\<rparr>)"

definition status_reply :: "fetch_outcome \<Rightarrow> page \<Rightarrow> page" where
  "status_reply r s =
     (case r of
        Rejected \<Rightarrow> status_caught s
      | Response ok None \<Rightarrow> status_caught s
      | Response ok (Some data) \<Rightarrow>
          (if data = JNull then status_caught s
           else if truthy (js_prop data ''logged_in'') then
             updateStatus ''Logged in.'' False
               (s\<lparr>loginHidden := True, botActionsHidden := False\<rparr>)
           else
             updateStatus ''Please log in to Instagram.'' False
               (s\<lparr>loginHidden := False, botActionsHidden := True\<rparr>)))"

subsection \<open>The login form and the 2FA form\<close>

text \<open>
  Each submit handler is an \<^verbatim>\<open>async\<close> function with no \<^verbatim>\<open>try\<close>: it runs up to
  \<^verbatim>\<open>await fetch(...)\<close> when the form is submitted (\<open>_submit\<close>, which also gives the
  request that is sent) and resumes when the fetch settles (\<open>_reply\<close>); other events may
  run in between. A rejected fetch and a body that is not JSON throw at the \<^verbatim>\<open>await\<close>;
  so does the first read of a property of \<^verbatim>\<open>result\<close> when the body is \<^verbatim>\<open>null\<close>. The
  argument \<open>form\<close> is the entry list \<^verbatim>\<open>new FormData(form)\<close> collects from the markup.
\<close>

definition login_submit :: "formdata \<Rightarrow> page \<Rightarrow> page \<times> request" where
  "login_submit form s =
     (updateStatus ''Logging in...'' False s, \<lparr>url = ''/login'', body = form\<rparr>)"

definition login_reply :: "host \<Rightarrow> fetch_outcome \<Rightarrow> page \<Rightarrow> outcome" where
  "login_reply h r s =
     (case r of
        Rejected \<Rightarrow> Inl (NetworkFailure, s)
      | Response ok None \<Rightarrow> Inl (SyntaxError, s)
      | Response ok (Some result) \<Rightarrow>
          (if result = JNull then Inl (TypeError, s)
           else if js_prop result ''status'' = Some (JStr ''success'') then
             then_do (updateStatus_value h (js_prop result ''message'') False s)
               (\<lambda>s'. Inr (s'\<lparr>loginHidden := True, twoFaHidden := True,
                              botActionsHidden := False\<rparr>))
           else if js_prop result ''status'' = Some (JStr ''2fa_required'') then
             then_do (updateStatus_value h (js_prop result ''message'') True s)
               (\<lambda>s'. Inr (s'\<lparr>loginHidden := True, twoFaHidden := False\<rparr>))
           else
             then_do (updateStatus_value h (js_prop result ''message'') True s)
               (\<lambda>s'. Inr (s'\<lparr>loginHidden := False, twoFaHidden := True\<rparr>))))"

definition twofa_submit :: "formdata \<Rightarrow> page \<Rightarrow> page \<times> request" where
  "twofa_submit form s =
     (updateStatus ''Submitting 2FA code...'' False s,
      \<lparr>url = ''/complete-2fa'', body = form\<rparr>)"

definition twofa_reply :: "host \<Rightarrow> fetch_outcome \<Rightarrow> page \<Rightarrow> outcome" where
  "twofa_reply h r s =
     (case r of
        Rejected \<Rightarrow> Inl (NetworkFailure, s)
      | Response ok None \<Rightarrow> Inl (SyntaxError, s)
      | Response ok (Some result) \<Rightarrow>
          (if result = JNull then Inl (TypeError, s)
           else if js_prop result ''status'' = Some (JStr ''success'') then
             then_do (updateStatus_value h (js_prop result ''message'') False s)
               (\<lambda>s'. Inr (s'\<lparr>twoFaHidden := True, botActionsHidden := False\<rparr>))
           else
             then_do (updateStatus_value h (js_prop result ''message'') True s)
               (\<lambda>s'. Inr (s'\<lparr>twoFaHidden := False\<rparr>))))"

subsection \<open>The contact-list form\<close>

definition get_list_submit :: "formdata \<Rightarrow> page \<Rightarrow> page \<times> request" where
  "get_list_submit form s =
     (updateStatus ''Fetching user list...'' False
        (s\<lparr>userListHtml := ''<p>Fetching list...</p>''\<rparr>),
      \<lparr>url = ''/get-list'', body = form\<rparr>)"

text \<open>
  The paragraph rendered for one user; \<open>None\<close> when the callback throws: reading a
  property of a \<^verbatim>\<open>null\<close> user does, and so does a field the template cannot convert.
\<close>

definition user_html :: "host \<Rightarrow> json \<Rightarrow> string option" where
  "user_html h user =
     (if user = JNull then None
      else
        (case template_str h (js_prop user ''pk'') of
           None \<Rightarrow> None
         | Some pk \<Rightarrow>
             (case template_str h (js_prop user ''username'') of
                None \<Rightarrow> None
              | Some username \<Rightarrow>
                  (case template_str h (js_prop user ''full_name'') of
                     None \<Rightarrow> None
                   | Some full_name \<Rightarrow>
                       Some (''<p>PK: '' @ pk @ '', Username: '' @ username @
                             '', Full Name: '' @ full_name @ ''</p>'')))))"

text \<open>\<^verbatim>\<open>result.users.map(user => user.pk).join(', ')\<close> on users none of which is \<^verbatim>\<open>null\<close>.\<close>

definition pks_joined :: "host \<Rightarrow> json list \<Rightarrow> string option" where
  "pks_joined h users =
     map_option (js_join '', '')
       (those (map (\<lambda>user. text_content h (js_prop user ''pk'')) users))"

definition empty_list_html :: string where
  "empty_list_html = ''<p>No users found or list is empty.</p>''"

definition warning_html :: "string \<Rightarrow> string" where
  \<open>warning_html message = ''<p class="text-orange-600">'' @ message @ ''</p>''\<close>

text \<open>
  \<^verbatim>\<open>result.detail || 'Unknown error'\<close>, as the template literals print it; \<open>None\<close> when
  they cannot.
\<close>

definition error_detail :: "host \<Rightarrow> json \<Rightarrow> string option" where
  "error_detail h result =
     (if truthy (js_prop result ''detail'') then template_str h (js_prop result ''detail'')
      else Some ''Unknown error'')"

definition error_html :: "string \<Rightarrow> string" where
  \<open>error_html errorDetail = ''<p class="text-red-600">Error: '' @ errorDetail @ ''</p>''\<close>

text \<open>
  The success branch reads \<^verbatim>\<open>result.users.length\<close> for the status line first, which
  throws when \<^verbatim>\<open>users\<close> is absent or \<^verbatim>\<open>null\<close>. Only an array has \<^verbatim>\<open>map\<close>: any other
  value that passes the test \<^verbatim>\<open>result.users && result.users.length > 0\<close> throws at the
  call. A throw inside the first \<^verbatim>\<open>map\<close> leaves the list output cleared; a throw in the
  \<^verbatim>\<open>join\<close> comes after the list output has been written.
\<close>

definition render_users :: "host \<Rightarrow> json \<Rightarrow> page \<Rightarrow> outcome" where
  "render_users h users s =
     (case users of
        JArr us \<Rightarrow>
          (case those (map (user_html h) us) of
             None \<Rightarrow> Inl (TypeError, s)
           | Some paragraphs \<Rightarrow>
               (case pks_joined h us of
                  None \<Rightarrow> Inl (TypeError, s\<lparr>userListHtml := concat paragraphs\<rparr>)
                | Some pks \<Rightarrow>
                    Inr (s\<lparr>userListHtml := concat paragraphs, recipientPks := pks\<rparr>)))
      | _ \<Rightarrow> Inl (TypeError, s))"

definition get_list_success :: "host \<Rightarrow> json \<Rightarrow> page \<Rightarrow> outcome" where
  "get_list_success h result s =
     (case js_prop result ''users'' of
        None \<Rightarrow> Inl (TypeError, s)
      | Some users \<Rightarrow>
          if users = JNull then Inl (TypeError, s)
          else
            (case template_str h (js_prop users ''length'') of
               None \<Rightarrow> Inl (TypeError, s)
             | Some count \<Rightarrow>
                 let s' = updateStatus (''Successfully fetched '' @ count @ '' users.'') False s
                 in
                   if truthy_json users then
                     (case gt_zero h (js_prop users ''length'') of
                        None \<Rightarrow> Inl (TypeError, s')
                      | Some positive \<Rightarrow>
                          if positive then render_users h users s'
                          else Inr (s'\<lparr>userListHtml := empty_list_html\<rparr>))
                   else Inr (s'\<lparr>userListHtml := empty_list_html\<rparr>)))"

definition get_list_reply :: "host \<Rightarrow> fetch_outcome \<Rightarrow> page \<Rightarrow> outcome" where
  "get_list_reply h r s =
     (case r of
        Rejected \<Rightarrow> Inl (NetworkFailure, s)
      | Response ok None \<Rightarrow> Inl (SyntaxError, s)
      | Response ok (Some result) \<Rightarrow>
          (let s0 = s\<lparr>userListHtml := []\<rparr> in
           if result = JNull then Inl (TypeError, s0)
           else if ok \<and> js_prop result ''status'' = Some (JStr ''success'') then
             get_list_success h result s0
           else if ok \<and> js_prop result ''status'' = Some (JStr ''warning'') then
             then_do (updateStatus_value h (js_prop result ''message'') True s0)
               (\<lambda>s'. case template_str h (js_prop result ''message'') of
                        None \<Rightarrow> Inl (TypeError, s')
                      | Some message \<Rightarrow> Inr (s'\<lparr>userListHtml := warning_html message\<rparr>))
           else
             (case error_detail h result of
                None \<Rightarrow> Inl (TypeError, s0)
              | Some errorDetail \<Rightarrow>
                  Inr ((updateStatus (''Failed to fetch list: '' @ errorDetail) True s0)
                         \<lparr>userListHtml := error_html errorDetail\<rparr>))))"

subsection \<open>The bulk-message form\<close>

text \<open>
  \<^verbatim>\<open>FormData.set(name, value)\<close>: the first entry called \<open>name\<close> is replaced and the other
  entries of that name are removed; with no such entry, one is appended.
\<close>

fun fd_set :: "formdata \<Rightarrow> string \<Rightarrow> string \<Rightarrow> formdata" where
  "fd_set [] name v = [(name, v)]"
| "fd_set ((k, x) # es) name v =
     (if k = name then (name, v) # filter (\<lambda>e. fst e \<noteq> name) es
      else (k, x) # fd_set es name v)"

text \<open>\<^verbatim>\<open>FormData.getAll(name)\<close>: the values sent under \<open>name\<close>, in order.\<close>

definition fd_get_all :: "formdata \<Rightarrow> string \<Rightarrow> string list" where
  "fd_get_all es name = map snd (filter (\<lambda>e. fst e = name) es)"

text \<open>
  Reading \<^verbatim>\<open>.value\<close> of the recipient field, a text area: the getter returns the stored
  text with every carriage return and line feed pair, and every other carriage return,
  replaced by one line feed. The field \<open>recipientPks\<close> of the page is the stored text.
\<close>

fun normalize_newlines :: "string \<Rightarrow> string" where
  "normalize_newlines [] = []"
| "normalize_newlines [c] = [if c = CHR 0x0D then CHR 0x0A else c]"
| "normalize_newlines (c # d # cs) =
     (if c = CHR 0x0D \<and> d = CHR 0x0A then CHR 0x0A # normalize_newlines cs
      else if c = CHR 0x0D then CHR 0x0A # normalize_newlines (d # cs)
      else c # normalize_newlines (d # cs))"

definition field_value :: "page \<Rightarrow> string" where
  "field_value s = normalize_newlines (recipientPks s)"

definition send_dm_submit :: "formdata \<Rightarrow> page \<Rightarrow> page \<times> request" where
  "send_dm_submit form s =
     (updateStatus ''Starting mass DM process...'' False s,
      \<lparr>url = ''/send-dm'', body = fd_set form ''recipient_pks'' (field_value s)\<rparr>)"

definition send_dm_reply :: "host \<Rightarrow> fetch_outcome \<Rightarrow> page \<Rightarrow> outcome" where
  "send_dm_reply h r s =
     (case r of
        Rejected \<Rightarrow> Inl (NetworkFailure, s)
      | Response ok None \<Rightarrow> Inl (SyntaxError, s)
      | Response ok (Some result) \<Rightarrow>
          (if result = JNull then Inl (TypeError, s)
           else if ok \<and> js_prop result ''status'' = Some (JStr ''processing'') then
             updateStatus_value h (js_prop result ''message'') False s
           else
             (case error_detail h result of
                None \<Rightarrow> Inl (TypeError, s)
              | Some errorDetail \<Rightarrow>
                  Inr (updateStatus (''Failed to start DM process: '' @ errorDetail) True s))))"

section \<open>Events of the page\<close>

text \<open>
  What can happen after the script has installed its handlers: a message or a failure on
  the log channel, the answer to the status probe, a submission of one of the four forms,
  the settling of one of their requests, and the operator typing into the recipient field.
  An event source that has been closed dispatches nothing more; that is the contract of
  \<^verbatim>\<open>EventSource.close()\<close>, and the script opens no second source.
\<close>

datatype event =
    LogMessage "json option"
  | LogFailure
  | StatusReply fetch_outcome
  | LoginSubmit formdata
  | LoginReply fetch_outcome
  | TwoFaSubmit formdata
  | TwoFaReply fetch_outcome
  | GetListSubmit formdata
  | GetListReply fetch_outcome
  | SendDmSubmit formdata
  | SendDmReply fetch_outcome
  | EditRecipients string

fun dispatch :: "host \<Rightarrow> event \<Rightarrow> page \<Rightarrow> outcome" where
  "dispatch h (LogMessage parsed) s = (if channelClosed s then Inr s else onmessage h parsed s)"
| "dispatch h LogFailure s = (if channelClosed s then Inr s else onerror h s)"
| "dispatch h (StatusReply r) s = Inr (status_reply r s)"
| "dispatch h (LoginSubmit form) s = Inr (fst (login_submit form s))"
| "dispatch h (LoginReply r) s = login_reply h r s"
| "dispatch h (TwoFaSubmit form) s = Inr (fst (twofa_submit form s))"
| "dispatch h (TwoFaReply r) s = twofa_reply h r s"
| "dispatch h (GetListSubmit form) s = Inr (fst (get_list_submit form s))"
| "dispatch h (GetListReply r) s = get_list_reply h r s"
| "dispatch h (SendDmSubmit form) s = Inr (fst (send_dm_submit form s))"
| "dispatch h (SendDmReply r) s = send_dm_reply h r s"
| "dispatch h (EditRecipients v) s = Inr (s\<lparr>recipientPks := v\<rparr>)"

text \<open>The events of the log channel.\<close>

fun channel_event :: "event \<Rightarrow> bool" where
  "channel_event (LogMessage parsed) = True"
| "channel_event LogFailure = True"
| "channel_event e = False"

text \<open>
  A run of events. An uncaught exception ends only the handler that threw: the page
  stays as it was at the throw and later events are still handled.
\<close>

fun run :: "host \<Rightarrow> event list \<Rightarrow> page \<Rightarrow> page" where
  "run h [] s = s"
| "run h (e # es) s = run h es (state_of (dispatch h e s))"

text \<open>The texts of the log paragraphs, oldest first.\<close>

definition rendered :: "page \<Rightarrow> string list" where
  "rendered s = map snd (logLines s)"

text \<open>The log event whose payload is \<^verbatim>\<open>{"log": t}\<close>.\<close>

definition log_event :: "string \<Rightarrow> event" where
  "log_event t = LogMessage (Some (JObj [(''log'', JStr t)]))"

text \<open>
  The session state of the specification. The script has no such variable: the state is
  which of the three sections is shown. Following the specification's description of the
  transitions, the challenge is pending when the credential form is hidden and the
  challenge form is shown; the session is authenticated when the credential form is hidden
  and the action surface is shown; otherwise it is unauthenticated.
\<close>

datatype session_state = UNAUTHENTICATED | CHALLENGE_PENDING | AUTHENTICATED

definition session :: "page \<Rightarrow> session_state" where
  "session s =
     (if loginHidden s \<and> \<not> twoFaHidden s then CHALLENGE_PENDING
      else if loginHidden s \<and> \<not> botActionsHidden s then AUTHENTICATED
      else UNAUTHENTICATED)"

text \<open>
  A page for the worked examples: only the credential form is shown, nothing has been
  written yet and the log channel is open.
\<close>

definition fresh_page :: page where
  "fresh_page =
     \<lparr>statusText = [], statusClass = [], loginHidden = False, twoFaHidden = True,
      botActionsHidden = True, userListHtml = [], recipientPks = [], logLines = [],
      channelClosed = False, consoleErrors = []\<rparr>"


text \<open>The \<^verbatim>\<open>status\<close> field a handler reads from the reply, when there is one to read.\<close>

definition reply_status :: "fetch_outcome \<Rightarrow> jsval" where
  "reply_status r =
     (case r of
        Rejected \<Rightarrow> None
      | Response ok None \<Rightarrow> None
      | Response ok (Some result) \<Rightarrow> js_prop result ''status'')"

text \<open>
  A host for the worked examples. None of them compares a string with a number or holds
  a number of size \<open>2^53\<close> or more, so the two conversions are never asked.
\<close>

definition example_host :: host where
  "example_host = \<lparr>str_positive = (\<lambda>s. False), big_number_text = (\<lambda>n. [])\<rparr>"

text \<open>A successful contact-list body with three users, for the worked examples.\<close>

definition three_users :: json where
  "three_users =
     JObj [(''status'', JStr ''success''),
           (''users'', JArr
              [JObj [(''pk'', JNum 1), (''username'', JStr ''ann''), (''full_name'', JStr ''Ann A'')],
               JObj [(''pk'', JNum 2), (''username'', JStr ''bob''), (''full_name'', JStr ''Bob B'')],
               JObj [(''pk'', JNum 3), (''username'', JStr ''cy''), (''full_name'', JStr ''Cy C'')]])]"

section \<open>Basic facts\<close>

subsection \<open>The value model does what the JavaScript operations do\<close>

lemma starts_with_iff: "starts_with s sub \<longleftrightarrow> (\<exists>post. s = sub @ post)"
  by (induction s sub rule: starts_with.induct) auto

lemma str_includes_iff: "str_includes s sub \<longleftrightarrow> (\<exists>pre post. s = pre @ sub @ post)"
proof (induction s)
  case Nil
  then show ?case by auto
next
  case (Cons c cs)
  show ?case
  proof
    assume "str_includes (c # cs) sub"
    then consider "starts_with (c # cs) sub" | "str_includes cs sub" by auto
    then show "\<exists>pre post. c # cs = pre @ sub @ post"
    proof cases
      case 1
      then obtain post where "c # cs = sub @ post" by (auto simp: starts_with_iff)
      then have "c # cs = [] @ sub @ post" by simp
      then show ?thesis by blast
    next
      case 2
      with Cons.IH obtain pre post where "cs = pre @ sub @ post" by auto
      then have "c # cs = (c # pre) @ sub @ post" by simp
      then show ?thesis by blast
    qed
  next
    assume "\<exists>pre post. c # cs = pre @ sub @ post"
    then obtain pre post where eq: "c # cs = pre @ sub @ post" by auto
    show "str_includes (c # cs) sub"
    proof (cases pre)
      case Nil
      with eq have "starts_with (c # cs) sub" by (auto simp: starts_with_iff)
      then show ?thesis by simp
    next
      case (Cons p ps)
      with eq have "cs = ps @ sub @ post" by simp
      with Cons.IH have "str_includes cs sub" by auto
      then show ?thesis by simp
    qed
  qed
qed

lemma digit_value_nth: "n < 10 \<Longrightarrow> digit_value (''0123456789'' ! n) = n"
proof -
  assume "n < 10"
  then consider "n = 0" | "n = 1" | "n = 2" | "n = 3" | "n = 4" | "n = 5" | "n = 6" | "n = 7"
    | "n = 8" | "n = 9" by atomize_elim arith
  then show ?thesis by cases (simp_all add: digit_value_def)
qed

lemma decimal_value_string_of_nat: "decimal_value (string_of_nat n) = n"
proof (induction n rule: string_of_nat.induct)
  case (1 n)
  show ?case
  proof (cases "n < 10")
    case True
    then show ?thesis
      by (simp add: string_of_nat.simps [of n] decimal_value_def digit_value_nth)
  next
    case False
    with "1" have IH: "decimal_value (string_of_nat (n div 10)) = n div 10" by simp
    have "n mod 10 < 10" by simp
    then have "digit_value (''0123456789'' ! (n mod 10)) = n mod 10" by (rule digit_value_nth)
    with False IH show ?thesis
      by (simp add: string_of_nat.simps [of n] decimal_value_def)
  qed
qed

subsection \<open>Conversions\<close>


lemma number_text_big: "2 ^ 53 \<le> \<bar>n\<bar> \<Longrightarrow> number_text h n = big_number_text h n"
  by (simp add: number_text_def)

lemma to_string_own_toString: "to_string h (JObj ((''toString'', v) # kvs)) = None"
  by simp

lemma text_content_simple [simp]:
  "text_content h None = Some []"
  "text_content h (Some JNull) = Some []"
  "text_content h (Some (JStr m)) = Some m"
  "text_content h (Some (JNum n)) = Some (number_text h n)"
  by (simp_all add: text_content_def)

lemma template_str_simple [simp]:
  "template_str h None = Some ''undefined''"
  "template_str h (Some JNull) = Some ''null''"
  "template_str h (Some (JStr m)) = Some m"
  "template_str h (Some (JNum n)) = Some (number_text h n)"
  by (simp_all add: template_str_def)

lemma text_content_throws_iff: "text_content h v = None \<longleftrightarrow> template_str h v = None"
  by (cases v; cases "the v") (simp_all add: text_content_def template_str_def)



text \<open>A user as the backend's contract describes it is rendered without a throw.\<close>

lemma contact_renders:
  assumes "js_prop u ''pk'' = Some (JNum n)" and "js_prop u ''username'' = Some (JStr a)"
    and "js_prop u ''full_name'' = Some (JStr b)"
  shows "user_html h u =
           Some (''<p>PK: '' @ number_text h n @ '', Username: '' @ a @
                 '', Full Name: '' @ b @ ''</p>'')"
proof -
  from assms(1) have "u \<noteq> JNull" by auto
  with assms show ?thesis by (simp add: user_html_def)
qed

subsection \<open>Results of handlers\<close>

lemma state_of_simps [simp]:
  "state_of (Inl (e, s)) = s" "state_of (Inr s) = s"
  by (simp_all add: state_of_def)

lemma uncaught_simps [simp]:
  "uncaught (Inl (e, s)) = Some e" "uncaught (Inr s) = None"
  by (simp_all add: uncaught_def)

lemma then_do_simps [simp]:
  "then_do (Inl e) f = Inl e" "then_do (Inr s) f = f s"
  by (simp_all add: then_do_def)

lemma updateStatus_fields [simp]:
  "logLines (updateStatus m b s) = logLines s"
  "channelClosed (updateStatus m b s) = channelClosed s"
  "loginHidden (updateStatus m b s) = loginHidden s"
  "twoFaHidden (updateStatus m b s) = twoFaHidden s"
  "botActionsHidden (updateStatus m b s) = botActionsHidden s"
  "recipientPks (updateStatus m b s) = recipientPks s"
  "userListHtml (updateStatus m b s) = userListHtml s"
  "statusText (updateStatus m b s) = m"
  "statusClass (updateStatus m b s) = status_class b"
  by (simp_all add: updateStatus_def)

lemma updateStatus_value_cases:
  "updateStatus_value h m b s =
     (case text_content h m of None \<Rightarrow> Inl (TypeError, s) | Some t \<Rightarrow> Inr (updateStatus t b s))"
  by (simp add: updateStatus_value_def)

subsection \<open>Only the channel handlers write to the log\<close>

lemma login_reply_log:
  "logLines (state_of (login_reply h r s)) = logLines s \<and>
   channelClosed (state_of (login_reply h r s)) = channelClosed s"
  by (simp add: login_reply_def updateStatus_value_def
      split: fetch_outcome.splits option.splits)

lemma twofa_reply_log:
  "logLines (state_of (twofa_reply h r s)) = logLines s \<and>
   channelClosed (state_of (twofa_reply h r s)) = channelClosed s"
  by (simp add: twofa_reply_def updateStatus_value_def
      split: fetch_outcome.splits option.splits)

lemma send_dm_reply_log:
  "logLines (state_of (send_dm_reply h r s)) = logLines s \<and>
   channelClosed (state_of (send_dm_reply h r s)) = channelClosed s"
  by (simp add: send_dm_reply_def updateStatus_value_def
      split: fetch_outcome.splits option.splits)

lemma render_users_log:
  "logLines (state_of (render_users h users s)) = logLines s \<and>
   channelClosed (state_of (render_users h users s)) = channelClosed s"
  by (simp add: render_users_def split: option.splits json.splits)

lemma get_list_success_log:
  "logLines (state_of (get_list_success h result s)) = logLines s \<and>
   channelClosed (state_of (get_list_success h result s)) = channelClosed s"
  by (simp add: get_list_success_def Let_def render_users_log split: option.splits)

lemma get_list_reply_log:
  "logLines (state_of (get_list_reply h r s)) = logLines s \<and>
   channelClosed (state_of (get_list_reply h r s)) = channelClosed s"
  by (simp add: get_list_reply_def Let_def get_list_success_log updateStatus_value_def
      split: fetch_outcome.splits option.splits)

lemma status_reply_log:
  "logLines (status_reply r s) = logLines s \<and>
   channelClosed (status_reply r s) = channelClosed s"
  by (simp add: status_reply_def status_caught_def split: fetch_outcome.splits option.splits)

lemma dispatch_closed:
  "channelClosed s \<Longrightarrow>
   logLines (state_of (dispatch h e s)) = logLines s \<and>
   channelClosed (state_of (dispatch h e s))"
  by (cases e)
    (simp_all add: login_reply_log twofa_reply_log send_dm_reply_log get_list_reply_log
      status_reply_log login_submit_def twofa_submit_def get_list_submit_def send_dm_submit_def)

lemma dispatch_other:
  "\<not> channel_event e \<Longrightarrow>
   logLines (state_of (dispatch h e s)) = logLines s \<and>
   channelClosed (state_of (dispatch h e s)) = channelClosed s"
  by (cases e)
    (simp_all add: login_reply_log twofa_reply_log send_dm_reply_log get_list_reply_log
      status_reply_log login_submit_def twofa_submit_def get_list_submit_def send_dm_submit_def)

lemma run_closed:
  "channelClosed s \<Longrightarrow> logLines (run h es s) = logLines s \<and> channelClosed (run h es s)"
proof (induction es arbitrary: s)
  case Nil
  then show ?case by simp
next
  case (Cons e es)
  from dispatch_closed [OF Cons.prems, of h e]
  have keep: "logLines (state_of (dispatch h e s)) = logLines s"
    and closed: "channelClosed (state_of (dispatch h e s))"
    by simp_all
  from Cons.IH [OF closed] keep show ?case by simp
qed

lemma run_append: "run h (es @ es') s = run h es' (run h es s)"
  by (induction es arbitrary: s) simp_all

lemma log_event_step:
  "\<not> channelClosed s \<Longrightarrow>
   dispatch h (log_event t) s
     = (if t = [] then Inr s
        else Inr (s\<lparr>logLines := logLines s @ [(log_class (str_includes t), t)]\<rparr>))"
  by (simp add: log_event_def onmessage_def appendLog_def)

subsection \<open>Form data\<close>

lemma fd_get_all_fd_set: "fd_get_all (fd_set form name v) name = [v]"
proof (induction form)
  case Nil
  then show ?case by (simp add: fd_get_all_def)
next
  case (Cons e es)
  obtain k x where e: "e = (k, x)" by (cases e)
  have "filter (\<lambda>e. fst e = name) (filter (\<lambda>e. fst e \<noteq> name) es) = []"
    by (induction es) auto
  with Cons e show ?case by (simp add: fd_get_all_def)
qed

lemma fd_set_others:
  "filter (\<lambda>e. fst e \<noteq> name) (fd_set form name v) = filter (\<lambda>e. fst e \<noteq> name) form"
  by (induction form) auto

lemma normalize_newlines_plain: "CHR 0x0D \<notin> set v \<Longrightarrow> normalize_newlines v = v"
  by (induction v rule: normalize_newlines.induct) auto

subsection \<open>The branches of the contact-list handler\<close>


lemma get_list_empty:
  assumes "js_prop result ''status'' = Some (JStr ''success'')"
    and "js_prop result ''users'' = Some (JArr [])"
  shows "get_list_reply h (Response True (Some result)) s
           = Inr (s\<lparr>statusText := ''Successfully fetched 0 users.'',
                    statusClass := status_class False,
                    userListHtml := empty_list_html\<rparr>)"
proof -
  from assms(1) have "result \<noteq> JNull" by auto
  with assms show ?thesis
    by (simp add: get_list_reply_def get_list_success_def Let_def updateStatus_def
        number_text_def string_of_int_def string_of_nat.simps)
qed

lemma get_list_error_branch:
  assumes "result \<noteq> JNull"
    and "\<not> (ok \<and> js_prop result ''status'' = Some (JStr ''success''))"
    and "\<not> (ok \<and> js_prop result ''status'' = Some (JStr ''warning''))"
  shows "get_list_reply h (Response ok (Some result)) s
           = (case error_detail h result of
                None \<Rightarrow> Inl (TypeError, s\<lparr>userListHtml := []\<rparr>)
              | Some d \<Rightarrow>
                  Inr (s\<lparr>statusText := ''Failed to fetch list: '' @ d,
                         statusClass := status_class True,
                         userListHtml := error_html d\<rparr>))"
  using assms by (auto simp add: get_list_reply_def updateStatus_def split: option.splits)

lemma get_list_warning_branch:
  assumes "js_prop result ''status'' = Some (JStr ''warning'')"
  shows "get_list_reply h (Response True (Some result)) s
           = (case text_content h (js_prop result ''message'') of
                None \<Rightarrow> Inl (TypeError, s\<lparr>userListHtml := []\<rparr>)
              | Some t \<Rightarrow>
                  (case template_str h (js_prop result ''message'') of
                     None \<Rightarrow> Inl (TypeError, (updateStatus t True s)\<lparr>userListHtml := []\<rparr>)
                   | Some w \<Rightarrow>
                       Inr (s\<lparr>statusText := t, statusClass := status_class True,
                              userListHtml := warning_html w\<rparr>)))"
proof -
  from assms have "result \<noteq> JNull" by auto
  with assms show ?thesis
    by (simp add: get_list_reply_def updateStatus_value_def updateStatus_def
        split: option.splits)
qed


lemma warning_html_distinct:
  "warning_html m \<noteq> error_html d" "warning_html m \<noteq> empty_list_html"
  "user_html h u = Some p \<Longrightarrow> warning_html m \<noteq> p @ rest"
  by (auto simp add: warning_html_def error_html_def empty_list_html_def user_html_def
      split: if_splits option.splits)

lemma empty_list_html_distinct: "empty_list_html \<noteq> error_html d" "empty_list_html \<noteq> []"
  by (simp_all add: empty_list_html_def error_html_def)

section \<open>The claims\<close>

subsection \<open>C1: failures of a request\<close>

text \<open>
  Claim C1 says that a network or transport failure of any request is caught where the
  request is made and turned into a status or log message. The status probe does that
  (its \<^verbatim>\<open>catch\<close> writes the error status), but the four submit handlers await their
  fetch outside any \<^verbatim>\<open>try\<close>: when the fetch is rejected the exception leaves the
  handler uncaught, the status line keeps the in-progress text in the normal style, and
  nothing is logged.
\<close>

theorem submit_network_failure_uncaught:
  "uncaught (login_reply h Rejected (fst (login_submit form s))) = Some NetworkFailure \<and>
   state_of (login_reply h Rejected (fst (login_submit form s)))
     = s\<lparr>statusText := ''Logging in...'', statusClass := status_class False\<rparr> \<and>
   uncaught (send_dm_reply h Rejected (fst (send_dm_submit form s))) = Some NetworkFailure \<and>
   state_of (send_dm_reply h Rejected (fst (send_dm_submit form s)))
     = s\<lparr>statusText := ''Starting mass DM process...'', statusClass := status_class False\<rparr> \<and>
   twofa_reply h Rejected s = Inl (NetworkFailure, s) \<and>
   get_list_reply h Rejected s = Inl (NetworkFailure, s) \<and>
   statusText (status_reply Rejected s)
     = ''Could not connect to backend. Ensure the server is running.'' \<and>
   statusClass (status_reply Rejected s) = status_class True"
  by (simp add: login_reply_def login_submit_def send_dm_reply_def send_dm_submit_def
      twofa_reply_def get_list_reply_def status_reply_def status_caught_def
      updateStatus_def)

subsection \<open>C2: the log is rendered in arrival order\<close>

text \<open>
  Claim C2, as amended: take any run of events of the page that starts with the channel
  open and in which the channel delivers the log events \<^verbatim>\<open>{"log": text}\<close> with the texts
  \<open>ts\<close>, in that order, interleaved in any way with submissions, replies and edits. Then
  the rendered texts are the texts rendered before followed by the arriving texts in
  arrival order, none duplicated, with the events of empty text left out: the guard
  \<^verbatim>\<open>data && data.log\<close> of the message handler skips them.
\<close>

theorem log_rendered_in_arrival_order:
  assumes "\<not> channelClosed s" and "filter channel_event es = map log_event ts"
  shows "rendered (run h es s) = rendered s @ filter (\<lambda>t. t \<noteq> []) ts"
  using assms
proof (induction es arbitrary: s ts)
  case Nil
  then show ?case by simp
next
  case (Cons e es)
  let ?s' = "state_of (dispatch h e s)"
  show ?case
  proof (cases "channel_event e")
    case False
    from False Cons.prems dispatch_other [of e h s]
    have "open": "\<not> channelClosed ?s'" and same: "rendered ?s' = rendered s"
      by (simp_all add: rendered_def)
    from False Cons.prems have rest: "filter channel_event es = map log_event ts" by simp
    from Cons.IH [OF "open" rest] same show ?thesis by simp
  next
    case True
    with Cons.prems obtain t ts' where ts: "ts = t # ts'" and e: "e = log_event t"
      and rest: "filter channel_event es = map log_event ts'"
      by (cases ts) auto
    from Cons.prems e have step: "?s' =
        (if t = [] then s else s\<lparr>logLines := logLines s @ [(log_class (str_includes t), t)]\<rparr>)"
      by (simp add: log_event_step)
    with Cons.prems have "\<not> channelClosed ?s'" by simp
    from Cons.IH [OF this rest] step ts show ?thesis
      by (simp add: rendered_def)
  qed
qed

theorem log_rendered_in_arrival_order_witness:
  "\<not> channelClosed fresh_page \<and>
   rendered (run example_host
      [log_event ''INFO started'', LoginSubmit [], log_event [], LoginReply Rejected,
       log_event ''Sent 1 of 2'']
      fresh_page)
     = [''INFO started'', ''Sent 1 of 2'']"
proof -
  have "open": "\<not> channelClosed fresh_page"
    by (simp add: fresh_page_def)
  have arrivals: "filter channel_event
      [log_event ''INFO started'', LoginSubmit [], log_event [], LoginReply Rejected,
       log_event ''Sent 1 of 2'']
     = map log_event [''INFO started'', [], ''Sent 1 of 2'']"
    by (simp add: log_event_def)
  from log_rendered_in_arrival_order [OF "open" arrivals, of example_host] "open"
  show ?thesis by (simp add: rendered_def fresh_page_def)
qed

text \<open>
  The claim as stated fails on an event whose text is the empty string: it arrives and
  is not rendered.
\<close>

theorem empty_log_text_not_rendered:
  "rendered (state_of (onmessage example_host (Some (JObj [(''log'', JStr [])])) fresh_page))
     = [] \<and>
   rendered (state_of (onmessage example_host (Some (JObj [(''log'', JStr [])])) fresh_page))
     \<noteq> [[]]"
  by (simp add: onmessage_def rendered_def fresh_page_def)

subsection \<open>C3: the warning outcome of a contact-list fetch\<close>

text \<open>
  Claim C3, as amended: for every contact-list fetch whose ok response has status
  \<^verbatim>\<open>warning\<close> and a message that is a string, the message is rendered in the list output
  in the orange style, which differs from the error rendering, from the empty-state
  rendering and from every rendering of users; on the status line the same message is
  shown with the error styling, since \<^verbatim>\<open>updateStatus\<close> is called with
  \<^verbatim>\<open>isError = true\<close>. The same holds for every message JavaScript can convert to a string,
  with the text \<open>t\<close> it stores on the status line and the text \<open>w\<close> the template inserts;
  a message it cannot convert makes the handler throw with the list output cleared.
\<close>

theorem warning_rendering:
  assumes "js_prop result ''status'' = Some (JStr ''warning'')"
  shows "(js_prop result ''message'' = Some (JStr m) \<longrightarrow>
            get_list_reply h (Response True (Some result)) s
              = Inr (s\<lparr>statusText := m, statusClass := status_class True,
                       userListHtml := warning_html m\<rparr>)) \<and>
         (text_content h (js_prop result ''message'') = Some t \<and>
          template_str h (js_prop result ''message'') = Some w \<longrightarrow>
            get_list_reply h (Response True (Some result)) s
              = Inr (s\<lparr>statusText := t, statusClass := status_class True,
                       userListHtml := warning_html w\<rparr>)) \<and>
         (text_content h (js_prop result ''message'') = None \<longrightarrow>
            get_list_reply h (Response True (Some result)) s
              = Inl (TypeError, s\<lparr>userListHtml := []\<rparr>)) \<and>
         warning_html w \<noteq> error_html d \<and>
         warning_html w \<noteq> empty_list_html \<and>
         (user_html h u = Some p \<longrightarrow> warning_html w \<noteq> concat (p # ps))"
  by (simp add: get_list_warning_branch [OF assms] warning_html_distinct)

theorem warning_rendering_witness:
  \<open>get_list_reply example_host
     (Response True
        (Some (JObj [(''status'', JStr ''warning''), (''message'', JStr ''Slow down'')])))
     fresh_page
     = Inr (fresh_page\<lparr>statusText := ''Slow down'',
              statusClass := ''mt-6 text-center text-sm font-medium text-red-600'',
              userListHtml := ''<p class="text-orange-600">Slow down</p>''\<rparr>)\<close>
proof -
  have status: "js_prop (JObj [(''status'', JStr ''warning''), (''message'', JStr ''Slow down'')])
      ''status'' = Some (JStr ''warning'')"
    by simp
  from warning_rendering [OF status, of "''Slow down''" example_host fresh_page]
  show ?thesis by (simp add: status_class_def warning_html_def)
qed

text \<open>
  The claim as stated fails on the status line: the warning is written there with the
  class of an error, not the class of a normal status.
\<close>

theorem warning_status_line_error_style:
  "statusClass (state_of (get_list_reply example_host
      (Response True
         (Some (JObj [(''status'', JStr ''warning''), (''message'', JStr ''Slow down'')])))
      fresh_page)) = status_class True \<and>
   statusClass (state_of (get_list_reply example_host
      (Response True
         (Some (JObj [(''status'', JStr ''warning''), (''message'', JStr ''Slow down'')])))
      fresh_page)) \<noteq> status_class False"
  by (simp add: get_list_reply_def updateStatus_value_def status_class_def)

subsection \<open>C4: credentials answered by a challenge\<close>

text \<open>
  Claim C4, as amended: for every credential submission whose response has status
  \<^verbatim>\<open>2fa_required\<close> and a message that is a string, whatever the page showed before, the
  credential form is hidden and the challenge form is visible afterwards, so the session
  state is CHALLENGE_PENDING; the message is put on the status line with the error
  styling (\<^verbatim>\<open>isError = true\<close>), the styling a rejected login gets. The same holds for
  every message JavaScript can convert to a string, with the text \<open>t\<close> it stores; a message
  it cannot convert makes the handler throw before the page is changed.
\<close>

theorem challenge_required_transition:
  assumes "js_prop result ''status'' = Some (JStr ''2fa_required'')"
  shows "(js_prop result ''message'' = Some (JStr m) \<longrightarrow>
            login_reply h (Response ok (Some result)) s
              = Inr (s\<lparr>statusText := m, statusClass := status_class True,
                       loginHidden := True, twoFaHidden := False\<rparr>) \<and>
            session (state_of (login_reply h (Response ok (Some result)) s))
              = CHALLENGE_PENDING) \<and>
         (text_content h (js_prop result ''message'') = Some t \<longrightarrow>
            login_reply h (Response ok (Some result)) s
              = Inr (s\<lparr>statusText := t, statusClass := status_class True,
                       loginHidden := True, twoFaHidden := False\<rparr>) \<and>
            session (state_of (login_reply h (Response ok (Some result)) s))
              = CHALLENGE_PENDING) \<and>
         (text_content h (js_prop result ''message'') = None \<longrightarrow>
            login_reply h (Response ok (Some result)) s = Inl (TypeError, s))"
proof -
  from assms have "result \<noteq> JNull" by auto
  with assms show ?thesis
    by (simp add: login_reply_def updateStatus_value_def updateStatus_def session_def)
qed

theorem challenge_required_transition_witness:
  "login_reply example_host
     (Response True
        (Some (JObj [(''status'', JStr ''2fa_required''), (''message'', JStr ''Enter the code'')])))
     fresh_page
     = Inr (fresh_page\<lparr>statusText := ''Enter the code'',
              statusClass := ''mt-6 text-center text-sm font-medium text-red-600'',
              loginHidden := True, twoFaHidden := False\<rparr>) \<and>
   session (state_of (login_reply example_host
     (Response True
        (Some (JObj [(''status'', JStr ''2fa_required''), (''message'', JStr ''Enter the code'')])))
     fresh_page)) = CHALLENGE_PENDING"
proof -
  have status:
    "js_prop (JObj [(''status'', JStr ''2fa_required''), (''message'', JStr ''Enter the code'')])
       ''status'' = Some (JStr ''2fa_required'')"
    by simp
  from challenge_required_transition
    [OF status, of "''Enter the code''" example_host True fresh_page]
  show ?thesis by (simp add: status_class_def session_def)
qed

text \<open>
  The claim as stated fails in its last part: the notice is written with the class of an
  error, not the class of a normal status.
\<close>

theorem challenge_notice_error_style:
  "statusClass (state_of (login_reply example_host
      (Response True
         (Some (JObj [(''status'', JStr ''2fa_required''), (''message'', JStr ''Enter the code'')])))
      fresh_page)) = status_class True \<and>
   statusClass (state_of (login_reply example_host
      (Response True
         (Some (JObj [(''status'', JStr ''2fa_required''), (''message'', JStr ''Enter the code'')])))
      fresh_page)) \<noteq> status_class False"
  by (simp add: login_reply_def updateStatus_value_def status_class_def)

subsection \<open>C5: failure of the log channel\<close>

text \<open>
  Claim C5: when the log channel fails while it is open, exactly one error line is
  appended to the log and the channel is closed, the handler throws nothing, and whatever
  events follow (further channel events, form submissions, replies, edits) the log keeps
  exactly those lines and the channel stays closed: nothing reopens it.
\<close>

theorem channel_failure_final:
  assumes "\<not> channelClosed s"
  shows "logLines (state_of (dispatch h LogFailure s))
           = logLines s @ [(''log-error'', stream_failed_line)] \<and>
         channelClosed (state_of (dispatch h LogFailure s)) \<and>
         uncaught (dispatch h LogFailure s) = None \<and>
         logLines (run h (LogFailure # es) s)
           = logLines s @ [(''log-error'', stream_failed_line)] \<and>
         channelClosed (run h (LogFailure # es) s)"
proof -
  have cls: "log_class (str_includes stream_failed_line) = ''log-error''"
    by (simp add: log_class_def stream_failed_line_def)
  let ?s' = "s\<lparr>consoleErrors := consoleErrors s @ [''EventSource failed:''],
               logLines := logLines s @ [(''log-error'', stream_failed_line)],
               channelClosed := True\<rparr>"
  from assms have step: "dispatch h LogFailure s = Inr ?s'"
    by (simp add: onerror_def appendLog_def cls)
  have "channelClosed ?s'" by simp
  from run_closed [OF this, of h es] step show ?thesis by simp
qed

theorem channel_failure_final_witness:
  "\<not> channelClosed fresh_page \<and>
   logLines (run example_host
      [LogFailure, log_event ''INFO late'', LogFailure, LoginSubmit [], LoginReply Rejected]
      fresh_page)
     = [(''log-error'', ''ERROR: Log streaming failed. Refresh the page or check server logs.'')] \<and>
   channelClosed (run example_host
      [LogFailure, log_event ''INFO late'', LogFailure, LoginSubmit [], LoginReply Rejected]
      fresh_page)"
  using channel_failure_final
    [of fresh_page example_host
        "[log_event ''INFO late'', LogFailure, LoginSubmit [], LoginReply Rejected]"]
  by (simp add: fresh_page_def stream_failed_line_def)

subsection \<open>C6: the recipients of a bulk message\<close>

text \<open>
  Claim C6: the request of every bulk-message submission goes to \<^verbatim>\<open>/send-dm\<close> and carries
  under \<^verbatim>\<open>recipient_pks\<close> exactly one value, the value read from the recipient field
  when the form is submitted, whatever entries of that name the form itself contributed;
  the other entries of the form are sent as they are. In particular, after any history of
  events that ends with the operator editing the field to \<open>v\<close>, the value sent is the value
  of the edited field, which is \<open>v\<close> itself when \<open>v\<close> has no carriage return.
\<close>

theorem send_dm_recipients_reread:
  "url (snd (send_dm_submit form s)) = ''/send-dm'' \<and>
   fd_get_all (body (snd (send_dm_submit form s))) ''recipient_pks'' = [field_value s] \<and>
   fd_get_all (body (snd (send_dm_submit form (run h (es @ [EditRecipients v]) s))))
     ''recipient_pks'' = [normalize_newlines v] \<and>
   (CHR 0x0D \<notin> set v \<longrightarrow>
    fd_get_all (body (snd (send_dm_submit form (run h (es @ [EditRecipients v]) s))))
      ''recipient_pks'' = [v]) \<and>
   filter (\<lambda>e. fst e \<noteq> ''recipient_pks'') (body (snd (send_dm_submit form s)))
     = filter (\<lambda>e. fst e \<noteq> ''recipient_pks'') form"
  by (simp add: send_dm_submit_def fd_get_all_fd_set fd_set_others run_append field_value_def
      normalize_newlines_plain)

theorem send_dm_recipients_reread_witness:
  "recipientPks (run example_host
      [GetListSubmit [], GetListReply (Response True (Some three_users))] fresh_page)
     = ''1, 2, 3'' \<and>
   fd_get_all (body (snd (send_dm_submit
      [(''recipient_pks'', ''1, 2, 3''), (''message'', ''hello'')]
      (run example_host
         ([GetListSubmit [], GetListReply (Response True (Some three_users))]
          @ [EditRecipients ''2, 3''])
         fresh_page)))) ''recipient_pks'' = [''2, 3'']"
proof -
  have fetched: "recipientPks (run example_host
      [GetListSubmit [], GetListReply (Response True (Some three_users))] fresh_page)
     = ''1, 2, 3''"
    by (simp add: three_users_def get_list_submit_def get_list_reply_def get_list_success_def
        render_users_def user_html_def Let_def pks_joined_def number_text_def
        string_of_int_def string_of_nat.simps)
  from send_dm_recipients_reread
    [of "[(''recipient_pks'', ''1, 2, 3''), (''message'', ''hello'')]" fresh_page
        example_host "[GetListSubmit [], GetListReply (Response True (Some three_users))]"
        "''2, 3''"]
    fetched
  show ?thesis by simp
qed

subsection \<open>C7: the recipient field after a fetch\<close>



subsection \<open>C8: the empty result of a fetch\<close>

text \<open>
  Claim C8: for every ok response with status \<^verbatim>\<open>success\<close> and an empty \<^verbatim>\<open>users\<close> array
  the handler reports zero users in the normal style and renders the empty-state
  paragraph. Every fetch that ends in the error branch (a response that is not ok, or a
  status that is neither \<^verbatim>\<open>success\<close> nor \<^verbatim>\<open>warning\<close>) renders the error paragraph with its
  detail \<open>d\<close> in the error style, when the template can convert the detail, and leaves the
  list output cleared when it cannot; in both cases what it leaves in the list output is
  not the empty-state paragraph.
\<close>

theorem empty_state_distinct_from_error:
  assumes "js_prop result ''status'' = Some (JStr ''success'')"
    and "js_prop result ''users'' = Some (JArr [])"
    and "failed \<noteq> JNull"
    and "\<not> (ok \<and> js_prop failed ''status'' = Some (JStr ''success''))"
    and "\<not> (ok \<and> js_prop failed ''status'' = Some (JStr ''warning''))"
  shows "get_list_reply h (Response True (Some result)) s
           = Inr (s\<lparr>statusText := ''Successfully fetched 0 users.'',
                    statusClass := status_class False,
                    userListHtml := empty_list_html\<rparr>) \<and>
         (error_detail h failed = Some d \<longrightarrow>
            userListHtml (state_of (get_list_reply h (Response ok (Some failed)) s'))
              = error_html d \<and>
            statusClass (state_of (get_list_reply h (Response ok (Some failed)) s'))
              = status_class True) \<and>
         userListHtml (state_of (get_list_reply h (Response True (Some result)) s))
           \<noteq> userListHtml (state_of (get_list_reply h (Response ok (Some failed)) s'))"
  by (simp add: get_list_empty [OF assms(1,2)] get_list_error_branch [OF assms(3,4,5)]
      empty_list_html_distinct split: option.splits)

theorem empty_state_distinct_from_error_witness:
  \<open>userListHtml (state_of (get_list_reply example_host
      (Response True (Some (JObj [(''status'', JStr ''success''), (''users'', JArr [])])))
      fresh_page)) = ''<p>No users found or list is empty.</p>'' \<and>
   userListHtml (state_of (get_list_reply example_host
      (Response False (Some (JObj [(''detail'', JStr ''Not logged in'')])))
      fresh_page)) = ''<p class="text-red-600">Error: Not logged in</p>''\<close>
proof -
  let ?empty = "JObj [(''status'', JStr ''success''), (''users'', JArr [])]"
  let ?failed = "JObj [(''detail'', JStr ''Not logged in'')]"
  have status: "js_prop ?empty ''status'' = Some (JStr ''success'')" by simp
  have users: "js_prop ?empty ''users'' = Some (JArr [])" by simp
  have body: "?failed \<noteq> JNull" by simp
  have no_success: "\<not> (False \<and> js_prop ?failed ''status'' = Some (JStr ''success''))" by simp
  have no_warning: "\<not> (False \<and> js_prop ?failed ''status'' = Some (JStr ''warning''))" by simp
  have detail: "error_detail example_host ?failed = Some ''Not logged in''"
    by (simp add: error_detail_def truthy_def)
  from empty_state_distinct_from_error
    [OF status users body no_success no_warning,
     of example_host fresh_page "''Not logged in''" fresh_page] detail
  show ?thesis by (simp add: empty_list_html_def error_html_def)
qed

subsection \<open>C9: a rejected challenge code\<close>

text \<open>
  Claim C9: when the challenge is pending and a challenge-code submission is answered by
  anything but a body with status \<^verbatim>\<open>success\<close> (an error status, but also a request that
  fails), the challenge is still pending afterwards: the challenge form is visible and
  the credential form is still hidden. The same holds for the whole submission, from the
  submit event to the reply.
\<close>

theorem failed_challenge_stays_pending:
  assumes "session s = CHALLENGE_PENDING"
    and "reply_status r \<noteq> Some (JStr ''success'')"
  shows "session (state_of (twofa_reply h r s)) = CHALLENGE_PENDING \<and>
         \<not> twoFaHidden (state_of (twofa_reply h r s)) \<and>
         loginHidden (state_of (twofa_reply h r s)) \<and>
         session (run h [TwoFaSubmit form, TwoFaReply r] s) = CHALLENGE_PENDING \<and>
         \<not> twoFaHidden (run h [TwoFaSubmit form, TwoFaReply r] s)"
proof -
  from assms(1) have vis: "loginHidden s" "\<not> twoFaHidden s"
    by (auto simp add: session_def split: if_splits)
  have keep: "loginHidden (state_of (twofa_reply h r t)) = loginHidden t \<and>
      (\<not> twoFaHidden t \<longrightarrow> \<not> twoFaHidden (state_of (twofa_reply h r t)))" for t
    using assms(2)
    by (simp add: twofa_reply_def reply_status_def updateStatus_value_def
        split: fetch_outcome.splits option.splits)
  from keep [of s] keep [of "fst (twofa_submit form s)"] vis show ?thesis
    by (simp add: session_def twofa_submit_def)
qed

theorem failed_challenge_stays_pending_witness:
  "session (fresh_page\<lparr>loginHidden := True, twoFaHidden := False\<rparr>) = CHALLENGE_PENDING \<and>
   session (run example_host
      [TwoFaSubmit [(''code'', ''000000'')],
       TwoFaReply (Response True
         (Some (JObj [(''status'', JStr ''error''), (''message'', JStr ''Wrong code'')])))]
      (fresh_page\<lparr>loginHidden := True, twoFaHidden := False\<rparr>)) = CHALLENGE_PENDING \<and>
   \<not> twoFaHidden (run example_host
      [TwoFaSubmit [(''code'', ''000000'')],
       TwoFaReply (Response True
         (Some (JObj [(''status'', JStr ''error''), (''message'', JStr ''Wrong code'')])))]
      (fresh_page\<lparr>loginHidden := True, twoFaHidden := False\<rparr>))"
proof -
  let ?s = "fresh_page\<lparr>loginHidden := True, twoFaHidden := False\<rparr>"
  let ?r = "Response True
    (Some (JObj [(''status'', JStr ''error''), (''message'', JStr ''Wrong code'')]))"
  have pending: "session ?s = CHALLENGE_PENDING"
    by (simp add: session_def)
  have status: "reply_status ?r \<noteq> Some (JStr ''success'')"
    by (simp add: reply_status_def)
  from failed_challenge_stays_pending [OF pending status, of example_host "[(''code'', ''000000'')]"]
    pending
  show ?thesis by simp
qed

subsection \<open>C10: the unguarded read of the user count\<close>

text \<open>
  Claim C10: in the success branch the handler reads \<^verbatim>\<open>result.users.length\<close> for the
  status line before it tests \<^verbatim>\<open>result.users\<close>. So for every ok response with status
  \<^verbatim>\<open>success\<close> whose \<^verbatim>\<open>users\<close> is absent or \<^verbatim>\<open>null\<close> the handler throws a type error;
  by then it has only cleared the list output, and neither a status nor a result is
  rendered.
\<close>

theorem users_length_read_unguarded:
  assumes "js_prop result ''status'' = Some (JStr ''success'')"
    and "js_prop result ''users'' = None \<or> js_prop result ''users'' = Some JNull"
  shows "get_list_reply h (Response True (Some result)) s
           = Inl (TypeError, s\<lparr>userListHtml := []\<rparr>)"
proof -
  from assms(1) have "result \<noteq> JNull" by auto
  with assms show ?thesis
    by (auto simp add: get_list_reply_def get_list_success_def)
qed

theorem users_length_read_unguarded_witness:
  "get_list_reply example_host
     (Response True (Some (JObj [(''status'', JStr ''success'')]))) fresh_page
     = Inl (TypeError, fresh_page\<lparr>userListHtml := []\<rparr>)"
  using users_length_read_unguarded
    [of "JObj [(''status'', JStr ''success'')]" example_host fresh_page]
  by simp

end
